theory Spec2Isabelle
  imports Main
begin

section \<open>The light handler of LightHandler.ts\<close>

text \<open>
  \<open>setupLightHandler\<close> keeps its state in closure variables and reacts to websocket
  messages, device events and timers. The model keeps those variables in one record and
  turns every handler and timer callback into a function from the state to the new state
  and the list of effects it performs, in the order the callback performs them. JavaScript
  runs a callback without interleaving up to its first \<open>await\<close>. The awaited calls of the
  collaborators (\<open>light.setRGB\<close>, \<open>saveSettings\<close>) are taken to come back before the next
  event is handled, so a handler or a tick is one step. The five \<open>sleep\<close>s of \<open>onConnect\<close>
  are real waits of half a second: a call of \<open>onConnect\<close> is a sequence of steps, one per
  wake-up, and other events can come in between.
\<close>

subsection \<open>Data\<close>

text \<open>
  \<open>ControllerMode\<close> is a union of string literals; on the wire any string can arrive, so
  a mode is a string here and the \<open>switch\<close> of \<open>setMode\<close> is a comparison of strings.
\<close>

type_synonym ControllerMode = string

text \<open>The interface \<open>RGB\<close> (\<open>{r, g, b}\<close>); JavaScript numbers are integers here.\<close>

record rgb =
  rgb_r :: int
  rgb_g :: int
  rgb_b :: int

text \<open>
  The closure variables. \<open>doorFrameLoop\<close> is the handle of the running fade interval
  together with the \<open>r\<close>, \<open>g\<close>, \<open>b\<close> its callback has captured; \<open>de_pending\<close> says that
  the lodash debounce \<open>de\<close> has a call waiting for its 10 seconds. \<open>timeout\<close> is the
  pending tick timer whose handle the variable \<open>timeout\<close> holds, with its delay in
  milliseconds (\<open>None\<close> when the variable is undefined or its timer has fired or been
  cleared).

  Two more fields hold what the runtime keeps outside the variables. \<open>lost_timeouts\<close> are
  the pending tick timers whose handle has been overwritten in \<open>timeout\<close>: they still fire,
  and no \<open>clearTimeout(timeout)\<close> reaches them. \<open>connecting\<close> are the calls of \<open>onConnect\<close>
  that wait in a \<open>sleep\<close>, each with the number of sleeps it has finished.
\<close>

record controller =
  lightMode :: ControllerMode
  lastMode :: ControllerMode
  settings_controllerMode :: ControllerMode
  RGB :: rgb
  lastRGB :: rgb
  doorFrameLoop :: "(int \<times> int \<times> int) option"
  de_pending :: bool
  timeout :: "int option"
  lost_timeouts :: "int list"
  connecting :: "nat list"

datatype payload = Mode ControllerMode | Color rgb

datatype effect =
    SetRGB int int int
  | SetIfPossible int int int bool
  | Broadcast string payload
  | SaveSettings
  | LoggerDebug string

datatype error = Error string

text \<open>
  What a tick reads from outside the handler: the state of the autopilot scheduler, the
  colour of the audio analyser, the answer of \<open>light.setIfPossible\<close>, and the two
  readings of \<open>Date.now()\<close>.
\<close>

record env =
  autoPilot_state :: rgb
  audio_rgb :: rgb
  setIfPossible_ok :: bool
  now :: int
  dateEnd :: int

text \<open>
  Modelled from the spec: the constant \<open>SECOND\<close> of shared/constants is not among the
  sources; the spec gives the frame interval \<open>SECOND * 0.05\<close> as 50 ms, so \<open>SECOND\<close> is
  1000 milliseconds. The factor 0.05 is written as 5/100 on integers, which is exact for
  1000: \<open>SERVER_FPS\<close> is 50.
\<close>

definition SECOND :: int where
  "SECOND = 1000"

definition SERVER_FPS :: int where
  "SERVER_FPS = SECOND * 5 div 100"

definition white :: rgb where
  "white = \<lparr>rgb_r = 255, rgb_g = 255, rgb_b = 255\<rparr>"

text \<open>The state right after the declarations of \<open>setupLightHandler\<close>, for a loaded
  \<open>settings.controllerMode\<close>.\<close>

definition setupLightHandler :: "ControllerMode \<Rightarrow> controller" where
  "setupLightHandler m =
     \<lparr>lightMode = m, lastMode = m, settings_controllerMode = m,
      RGB = \<lparr>rgb_r = 0, rgb_g = 0, rgb_b = 0\<rparr>,
      lastRGB = \<lparr>rgb_r = 255, rgb_g = 255, rgb_b = 255\<rparr>,
      doorFrameLoop = None, de_pending = False, timeout = None,
      lost_timeouts = [], connecting = []\<rparr>"

subsection \<open>The mode\<close>

definition setMode :: "ControllerMode \<Rightarrow> controller \<Rightarrow> error + controller \<times> effect list" where
  "setMode mode s =
     (if mode = ''AutoPilot'' \<or> mode = ''Manual'' \<or> mode = ''Pattern'' \<or> mode = ''Audio''
         \<or> mode = ''AudioRaw'' \<or> mode = ''ManualForce'' \<or> mode = ''ManualLocked''
      then
        let diff = (lightMode s \<noteq> mode);
            s1 = s\<lparr>lightMode := mode, settings_controllerMode := mode, lastMode := mode\<rparr>;
            s2 = (if doorFrameLoop s1 \<noteq> None then s1\<lparr>doorFrameLoop := None\<rparr> else s1);
            s3 = s2\<lparr>de_pending := False\<rparr>
        in Inr (s3, [Broadcast ''mode-update'' (Mode mode)] @ (if diff then [SaveSettings] else []))
      else Inl (Error (''Mode '' @ mode @ '' does not exist!'')))"

text \<open>A handler calls \<open>setMode\<close> without awaiting it: a rejection is lost and the handler
  goes on with the state as it is.\<close>

definition setMode_unawaited :: "ControllerMode \<Rightarrow> controller \<Rightarrow> controller \<times> effect list" where
  "setMode_unawaited mode s = (case setMode mode s of Inl e \<Rightarrow> (s, []) | Inr x \<Rightarrow> x)"

definition clamp :: "int \<Rightarrow> int \<Rightarrow> int \<Rightarrow> int" where
  "clamp n lower upper = max lower (min upper n)"

text \<open>The handlers of \<open>rgb-set\<close> and \<open>mode-set\<close>, after \<open>client.validateAuthentication()\<close>
  has returned.\<close>

definition rgb_set :: "string \<Rightarrow> int \<Rightarrow> int \<Rightarrow> int \<Rightarrow> controller \<Rightarrow> controller \<times> effect list" where
  "rgb_set clientType red green blue s =
     (let (s1, out) = setMode_unawaited (if clientType = ''client'' then ''Manual'' else ''AudioRaw'') s
      in (s1\<lparr>RGB := \<lparr>rgb_r = clamp red 0 255, rgb_g = clamp green 0 255, rgb_b = clamp blue 0 255\<rparr>\<rparr>, out))"

definition mode_set :: "ControllerMode \<Rightarrow> controller \<Rightarrow> controller \<times> effect list" where
  "mode_set mode s = setMode_unawaited mode s"

definition all_clients_disconnected :: "controller \<Rightarrow> controller \<times> effect list" where
  "all_clients_disconnected s =
     (if lightMode s = ''Manual'' \<or> lightMode s = ''ManualForce''
      then setMode_unawaited ''AutoPilot'' s else (s, []))"

subsection \<open>The tick loop\<close>

definition isStateChanged :: "rgb \<Rightarrow> controller \<Rightarrow> bool \<times> controller" where
  "isStateChanged ap s =
     (if lightMode s = ''Audio'' \<or> lightMode s = ''AudioRaw'' then (True, s)
      else if lightMode s = ''Door'' then (False, s)
      else
        let s1 = (if lightMode s = ''AutoPilot''
                  then s\<lparr>RGB := \<lparr>rgb_r = rgb_r ap, rgb_g = rgb_g ap, rgb_b = rgb_b ap\<rparr>\<rparr>
                  else s);
            red = (rgb_r (RGB s1) = rgb_r (lastRGB s1));
            blue = (rgb_b (RGB s1) = rgb_b (lastRGB s1));
            green = (rgb_g (RGB s1) = rgb_g (lastRGB s1))
        in (\<not> (red \<and> blue \<and> green), s1))"

definition changeState :: "rgb \<Rightarrow> bool \<Rightarrow> controller \<Rightarrow> controller \<times> effect list" where
  "changeState audio ok s =
     (if lightMode s = ''Audio'' then
        (if ok then
           (s\<lparr>RGB := \<lparr>rgb_r = rgb_r audio, rgb_g = rgb_g audio, rgb_b = rgb_b audio\<rparr>,
              lastRGB := \<lparr>rgb_r = rgb_r audio, rgb_g = rgb_g audio, rgb_b = rgb_b audio\<rparr>\<rparr>,
            [SetIfPossible (rgb_r audio) (rgb_g audio) (rgb_b audio) True,
             Broadcast ''rgb-update''
               (Color \<lparr>rgb_r = rgb_r audio, rgb_g = rgb_g audio, rgb_b = rgb_b audio\<rparr>)])
         else (s, [SetIfPossible (rgb_r audio) (rgb_g audio) (rgb_b audio) False]))
      else
        let s1 = s\<lparr>lastRGB := \<lparr>rgb_r = rgb_r (RGB s), rgb_g = rgb_g (RGB s), rgb_b = rgb_b (RGB s)\<rparr>\<rparr>
        in (s1, [SetRGB (rgb_r (RGB s1)) (rgb_g (RGB s1)) (rgb_b (RGB s1)),
                 Broadcast ''rgb-update'' (Color (RGB s1))]))"

definition tick :: "env \<Rightarrow> controller \<Rightarrow> controller \<times> effect list" where
  "tick e s =
     (let (changed, s1) = isStateChanged (autoPilot_state e) s;
          (s2, out) = (if changed then changeState (audio_rgb e) (setIfPossible_ok e) s1 else (s1, []));
          diff = dateEnd e - now e
      in if diff > SERVER_FPS
         then (s2\<lparr>timeout := Some 0\<rparr>, out @ [LoggerDebug ''Server is lagging!''])
         else
           let next = (if lightMode s2 = ''Audio'' \<or> lightMode s2 = ''AudioRaw'' then 0
                       else SERVER_FPS - diff)
           in (s2\<lparr>timeout := Some next\<rparr>, out))"

subsection \<open>The door\<close>

definition updateModeAndLight :: "rgb option \<Rightarrow> controller \<Rightarrow> effect list" where
  "updateModeAndLight c s =
     [Broadcast ''mode-update'' (Mode (lightMode s)),
      Broadcast ''rgb-update'' (Color (case c of Some x \<Rightarrow> x | None \<Rightarrow> RGB s))]"

text \<open>The body of the debounced function \<open>de\<close>, run when its 10 seconds have passed.\<close>

definition de_body :: "controller \<Rightarrow> controller" where
  "de_body s =
     (let s1 = (if doorFrameLoop s \<noteq> None then s\<lparr>doorFrameLoop := None\<rparr> else s)
      in s1\<lparr>doorFrameLoop := Some (255, 255, 255)\<rparr>)"

text \<open>One run of the interval callback of the fade, with the captured \<open>r\<close>, \<open>g\<close>, \<open>b\<close>.\<close>

definition doorFrame :: "int \<times> int \<times> int \<Rightarrow> controller \<Rightarrow> controller \<times> effect list" where
  "doorFrame c s =
     (case c of (r0, g0, b0) \<Rightarrow>
        let r1 = (if r0 > rgb_r (RGB s) then r0 - 1 else r0);
            g1 = (if g0 > rgb_g (RGB s) then g0 - 1 else g0);
            b1 = (if b0 > rgb_b (RGB s) then b0 - 1 else b0);
            s1 = (if r1 = rgb_r (RGB s) \<and> b1 = rgb_b (RGB s) \<and> b1 = rgb_b (RGB s)
                  then s\<lparr>lightMode := lastMode s, doorFrameLoop := None\<rparr>
                  else s\<lparr>doorFrameLoop := Some (r1, g1, b1)\<rparr>)
        in (s1, SetRGB r1 g1 b1
                # updateModeAndLight
                    (Some \<lparr>rgb_r = rgb_r (RGB s1), rgb_g = rgb_g (RGB s1), rgb_b = rgb_b (RGB s1)\<rparr>) s1))"

definition door :: "bool \<Rightarrow> controller \<Rightarrow> controller \<times> effect list" where
  "door level s =
     (if lightMode s = ''ManualLocked'' then (s, [])
      else
        let s1 = (if doorFrameLoop s \<noteq> None then s\<lparr>doorFrameLoop := None\<rparr> else s);
            (s2, out) = (if level
                         then (s1\<lparr>de_pending := False, lightMode := ''Door''\<rparr>, [SetRGB 255 255 255])
                         else (s1\<lparr>de_pending := True\<rparr>, []))
        in (s2, out @ updateModeAndLight (Some \<lparr>rgb_r = 255, rgb_g = 255, rgb_b = 255\<rparr>) s2))"

subsection \<open>Connecting and disconnecting\<close>

text \<open>
  \<open>tick()\<close> called while \<open>timeout\<close> may hold a pending timer (from \<open>onConnect\<close>, or from
  a timer that \<open>timeout\<close> does not hold): the assignment \<open>timeout = setTimeout(...)\<close> at
  the end of the tick overwrites the handle, and the timer it referred to stays pending.
\<close>

definition tick_called :: "env \<Rightarrow> controller \<Rightarrow> controller \<times> effect list" where
  "tick_called e s =
     tick e (case timeout s of None \<Rightarrow> s
             | Some d \<Rightarrow> s\<lparr>lost_timeouts := lost_timeouts s @ [d]\<rparr>)"

text \<open>A call of \<open>onConnect\<close>, up to its first \<open>sleep\<close>.\<close>

definition onConnect :: "controller \<Rightarrow> controller" where
  "onConnect s =
     (let s1 = (if timeout s \<noteq> None then s\<lparr>timeout := None\<rparr> else s)
      in s1\<lparr>connecting := connecting s1 @ [0]\<rparr>)"

text \<open>
  The \<open>i\<close>-th waiting call of \<open>onConnect\<close> wakes up from its sleep and runs to its next
  sleep: it shows the next colour of red, green, blue, black; after the fifth sleep it
  sends the target colour and calls \<open>tick()\<close>, and the call is over.
\<close>

definition onConnect_resume :: "nat \<Rightarrow> env \<Rightarrow> controller \<Rightarrow> controller \<times> effect list" where
  "onConnect_resume i e s =
     (if i < length (connecting s) then
        let k = connecting s ! i in
        if k = 0 then (s\<lparr>connecting := (connecting s)[i := 1]\<rparr>, [SetRGB 255 0 0])
        else if k = 1 then (s\<lparr>connecting := (connecting s)[i := 2]\<rparr>, [SetRGB 0 255 0])
        else if k = 2 then (s\<lparr>connecting := (connecting s)[i := 3]\<rparr>, [SetRGB 0 0 255])
        else if k = 3 then (s\<lparr>connecting := (connecting s)[i := 4]\<rparr>, [SetRGB 0 0 0])
        else
          let s1 = s\<lparr>connecting := take i (connecting s) @ drop (Suc i) (connecting s)\<rparr>;
              (s2, out) = tick_called e s1
          in (s2, SetRGB (rgb_r (RGB s1)) (rgb_g (RGB s1)) (rgb_b (RGB s1)) # out)
      else (s, []))"

definition disconnect :: "controller \<Rightarrow> controller" where
  "disconnect s = (if timeout s \<noteq> None then s\<lparr>timeout := None\<rparr> else s)"

text \<open>\<open>destroy\<close> clears the timer that \<open>timeout\<close> holds; the variable keeps the dead
  handle, which acts as no timer from then on.\<close>

definition destroy :: "controller \<Rightarrow> controller" where
  "destroy s = s\<lparr>timeout := None\<rparr>"

subsection \<open>Events\<close>

text \<open>
  What can happen to the handler: a message of a client, an event of the device, one of
  its timers firing, a waiting \<open>onConnect\<close> waking up, or a call of the \<open>destroy\<close> it
  returns. A timer fires only while it is pending. \<open>Connect\<close> stands for a \<open>connect\<close>
  event and for the call of \<open>onConnect\<close> at the setup when the light is connected already.
  The handlers of \<open>mode-get\<close> and \<open>rgb-status\<close> only read the state and are left out.
\<close>

datatype event =
    RgbSet string int int int
  | ModeSet ControllerMode
  | AllClientsDisconnected
  | Door bool
  | DebounceFires
  | DoorFrameFires
  | TickFires env
  | LostTickFires nat env
  | Connect
  | ConnectResumes nat env
  | Disconnect
  | Destroy

fun step :: "event \<Rightarrow> controller \<Rightarrow> controller \<times> effect list" where
  "step (RgbSet clientType red green blue) s = rgb_set clientType red green blue s"
| "step (ModeSet mode) s = mode_set mode s"
| "step AllClientsDisconnected s = all_clients_disconnected s"
| "step (Door level) s = door level s"
| "step DebounceFires s = (if de_pending s then (de_body (s\<lparr>de_pending := False\<rparr>), []) else (s, []))"
| "step DoorFrameFires s = (case doorFrameLoop s of None \<Rightarrow> (s, []) | Some c \<Rightarrow> doorFrame c s)"
| "step (TickFires e) s = (if timeout s \<noteq> None then tick e s else (s, []))"
| "step (LostTickFires i e) s =
     (if i < length (lost_timeouts s)
      then tick_called e
             (s\<lparr>lost_timeouts := take i (lost_timeouts s) @ drop (Suc i) (lost_timeouts s)\<rparr>)
      else (s, []))"
| "step Connect s = (onConnect s, [])"
| "step (ConnectResumes i e) s = onConnect_resume i e s"
| "step Disconnect s = (disconnect s, [])"
| "step Destroy s = (destroy s, [])"

fun run :: "controller \<Rightarrow> event list \<Rightarrow> controller \<times> effect list" where
  "run s [] = (s, [])"
| "run s (ev # evs) =
     (let (s1, out1) = step ev s; (s2, out2) = run s1 evs in (s2, out1 @ out2))"

text \<open>What a tick reads when the frame takes one millisecond and the collaborators show
  white.\<close>

definition env_1ms :: env where
  "env_1ms = \<lparr>autoPilot_state = white, audio_rgb = white, setIfPossible_ok = True,
              now = 1000, dateEnd = 1001\<rparr>"

text \<open>A connect whose sequence nothing interrupts: the call of \<open>onConnect\<close> and its five
  wake-ups, the last of which runs the tick.\<close>

definition connect_and_intro :: "env \<Rightarrow> event list" where
  "connect_and_intro e =
     [Connect, ConnectResumes 0 e, ConnectResumes 0 e, ConnectResumes 0 e,
      ConnectResumes 0 e, ConnectResumes 0 e]"

text \<open>The states the handler can be in: those a sequence of events leads to from the
  state of the setup.\<close>

definition after :: "ControllerMode \<Rightarrow> event list \<Rightarrow> controller" where
  "after m evs = fst (run (setupLightHandler m) evs)"

definition emitted :: "ControllerMode \<Rightarrow> event list \<Rightarrow> effect list" where
  "emitted m evs = snd (run (setupLightHandler m) evs)"

text \<open>An invariant of those states: the saved mode is \<open>lastMode\<close>; the mode differs from
  \<open>lastMode\<close> only while the door holds it; and under \<open>ManualLocked\<close> no door timer is
  pending.\<close>

definition mode_inv :: "controller \<Rightarrow> bool" where
  "mode_inv s =
     (settings_controllerMode s = lastMode s
      \<and> (lightMode s = lastMode s \<or> (lightMode s = ''Door'' \<and> lastMode s \<noteq> ''ManualLocked''))
      \<and> (lastMode s = ''ManualLocked'' \<longrightarrow> \<not> de_pending s \<and> doorFrameLoop s = None))"

section \<open>The handlers in closed form\<close>

lemma setMode_eq:
  "setMode mode s =
     (if mode \<in> set [''AutoPilot'', ''Manual'', ''Pattern'', ''Audio'', ''AudioRaw'',
                      ''ManualForce'', ''ManualLocked'']
      then Inr (s\<lparr>lightMode := mode, settings_controllerMode := mode, lastMode := mode,
                   doorFrameLoop := None, de_pending := False\<rparr>,
                Broadcast ''mode-update'' (Mode mode)
                  # (if lightMode s \<noteq> mode then [SaveSettings] else []))
      else Inl (Error (''Mode '' @ mode @ '' does not exist!'')))"
  by (cases s; cases "doorFrameLoop s") (auto simp: setMode_def Let_def)

lemma door_eq:
  "door level s =
     (if lightMode s = ''ManualLocked'' then (s, [])
      else if level
      then (s\<lparr>doorFrameLoop := None, de_pending := False, lightMode := ''Door''\<rparr>,
            [SetRGB 255 255 255, Broadcast ''mode-update'' (Mode ''Door''),
             Broadcast ''rgb-update'' (Color \<lparr>rgb_r = 255, rgb_g = 255, rgb_b = 255\<rparr>)])
      else (s\<lparr>doorFrameLoop := None, de_pending := True\<rparr>,
            [Broadcast ''mode-update'' (Mode (lightMode s)),
             Broadcast ''rgb-update'' (Color \<lparr>rgb_r = 255, rgb_g = 255, rgb_b = 255\<rparr>)]))"
  by (cases s; cases "doorFrameLoop s") (auto simp: door_def updateModeAndLight_def Let_def)

lemma de_body_eq: "de_body s = s\<lparr>doorFrameLoop := Some (255, 255, 255)\<rparr>"
  by (cases s; cases "doorFrameLoop s") (auto simp: de_body_def Let_def)

lemma disconnect_eq: "disconnect s = s\<lparr>timeout := None\<rparr>"
  by (cases s; cases "timeout s") (auto simp: disconnect_def)

lemma isStateChanged_frame:
  "lightMode (snd (isStateChanged ap s)) = lightMode s"
  "lastMode (snd (isStateChanged ap s)) = lastMode s"
  "settings_controllerMode (snd (isStateChanged ap s)) = settings_controllerMode s"
  "doorFrameLoop (snd (isStateChanged ap s)) = doorFrameLoop s"
  "de_pending (snd (isStateChanged ap s)) = de_pending s"
  "timeout (snd (isStateChanged ap s)) = timeout s"
  by (simp_all add: isStateChanged_def Let_def)

lemma changeState_frame:
  "lightMode (fst (changeState a ok s)) = lightMode s"
  "lastMode (fst (changeState a ok s)) = lastMode s"
  "settings_controllerMode (fst (changeState a ok s)) = settings_controllerMode s"
  "doorFrameLoop (fst (changeState a ok s)) = doorFrameLoop s"
  "de_pending (fst (changeState a ok s)) = de_pending s"
  "timeout (fst (changeState a ok s)) = timeout s"
  by (simp_all add: changeState_def Let_def)

lemma tick_frame:
  "lightMode (fst (tick e s)) = lightMode s"
  "lastMode (fst (tick e s)) = lastMode s"
  "settings_controllerMode (fst (tick e s)) = settings_controllerMode s"
  "doorFrameLoop (fst (tick e s)) = doorFrameLoop s"
  "de_pending (fst (tick e s)) = de_pending s"
  by (simp_all add: tick_def Let_def split_beta isStateChanged_frame changeState_frame)

lemma tick_called_frame:
  "lightMode (fst (tick_called e s)) = lightMode s"
  "lastMode (fst (tick_called e s)) = lastMode s"
  "settings_controllerMode (fst (tick_called e s)) = settings_controllerMode s"
  "doorFrameLoop (fst (tick_called e s)) = doorFrameLoop s"
  "de_pending (fst (tick_called e s)) = de_pending s"
  by (simp_all add: tick_called_def tick_frame split: option.split)

lemma onConnect_eq: "onConnect s = s\<lparr>timeout := None, connecting := connecting s @ [0]\<rparr>"
  by (cases s; cases "timeout s") (auto simp: onConnect_def Let_def)

lemma onConnect_resume_frame:
  "lightMode (fst (onConnect_resume i e s)) = lightMode s"
  "lastMode (fst (onConnect_resume i e s)) = lastMode s"
  "settings_controllerMode (fst (onConnect_resume i e s)) = settings_controllerMode s"
  "doorFrameLoop (fst (onConnect_resume i e s)) = doorFrameLoop s"
  "de_pending (fst (onConnect_resume i e s)) = de_pending s"
  by (simp_all add: onConnect_resume_def Let_def split_beta tick_called_frame)

lemma run_append:
  "run s (xs @ ys) =
     (fst (run (fst (run s xs)) ys), snd (run s xs) @ snd (run (fst (run s xs)) ys))"
  by (induction xs arbitrary: s) (simp_all add: split_beta)

lemma after_append: "after m (xs @ ys) = fst (run (after m xs) ys)"
  by (simp add: after_def run_append)

lemma run_then:
  "run s xs = (s', out) \<Longrightarrow> run s' ys = (s'', out') \<Longrightarrow> run s (xs @ ys) = (s'', out @ out')"
  by (simp add: run_append)

lemma run_snoc:
  "run s (evs @ [ev]) =
     (fst (step ev (fst (run s evs))), snd (run s evs) @ snd (step ev (fst (run s evs))))"
  by (simp add: run_append split_beta)

section \<open>The invariant\<close>

lemma mode_inv_setup: "mode_inv (setupLightHandler m)"
  by (simp add: mode_inv_def setupLightHandler_def)

lemma mode_inv_setMode_unawaited: "mode_inv s \<Longrightarrow> mode_inv (fst (setMode_unawaited m s))"
  by (simp add: mode_inv_def setMode_unawaited_def setMode_eq)

lemma mode_inv_rgb_set: "mode_inv s \<Longrightarrow> mode_inv (fst (rgb_set c x y z s))"
  using mode_inv_setMode_unawaited [of s "if c = ''client'' then ''Manual'' else ''AudioRaw''"]
  by (simp add: rgb_set_def split_beta mode_inv_def)

lemma mode_inv_all_clients_disconnected:
  "mode_inv s \<Longrightarrow> mode_inv (fst (all_clients_disconnected s))"
  by (simp add: all_clients_disconnected_def mode_inv_setMode_unawaited)

lemma mode_inv_door: "mode_inv s \<Longrightarrow> mode_inv (fst (door level s))"
  by (auto simp: mode_inv_def door_eq)

lemma mode_inv_doorFrame:
  "mode_inv s \<Longrightarrow> doorFrameLoop s = Some c \<Longrightarrow> mode_inv (fst (doorFrame c s))"
  by (cases c) (auto simp: mode_inv_def doorFrame_def Let_def)

lemma mode_inv_tick: "mode_inv s \<Longrightarrow> mode_inv (fst (tick e s))"
  by (simp add: mode_inv_def tick_frame)

lemma mode_inv_onConnect: "mode_inv s \<Longrightarrow> mode_inv (onConnect s)"
  by (simp add: mode_inv_def onConnect_eq)

lemma mode_inv_onConnect_resume: "mode_inv s \<Longrightarrow> mode_inv (fst (onConnect_resume i e s))"
  by (simp add: mode_inv_def onConnect_resume_frame)

lemma mode_inv_step:
  assumes "mode_inv s"
  shows "mode_inv (fst (step ev s))"
proof (cases ev)
  case DebounceFires
  with assms show ?thesis by (auto simp: mode_inv_def de_body_eq)
next
  case DoorFrameFires
  with assms show ?thesis by (simp add: mode_inv_doorFrame split: option.split)
next
  case Disconnect
  with assms show ?thesis by (simp add: mode_inv_def disconnect_eq)
next
  case Destroy
  with assms show ?thesis by (simp add: mode_inv_def destroy_def)
next
  case (LostTickFires i e)
  with assms show ?thesis by (simp add: mode_inv_def tick_called_frame)
qed (use assms in \<open>simp_all add: mode_inv_rgb_set mode_set_def mode_inv_setMode_unawaited
       mode_inv_all_clients_disconnected mode_inv_door mode_inv_tick mode_inv_onConnect
       mode_inv_onConnect_resume\<close>)

lemma mode_inv_run: "mode_inv s \<Longrightarrow> mode_inv (fst (run s evs))"
  by (induction evs arbitrary: s) (simp_all add: split_beta mode_inv_step)

lemma mode_inv_after: "mode_inv (after m evs)"
  by (simp add: after_def mode_inv_run mode_inv_setup)

section \<open>The mode state machine\<close>

text \<open>
  C5, as the spec states it: \<open>setMode\<close> accepts each of the eight modes, \<open>Door\<close> among them.
  The \<open>switch\<close> has no case for \<open>Door\<close>: the call is rejected as for any unknown string.
\<close>

theorem setMode_rejects_Door:
  "setMode ''Door'' (setupLightHandler ''Manual'') = Inl (Error ''Mode Door does not exist!'')"
  by (simp add: setMode_def)

text \<open>
  C5, amended: \<open>setMode\<close> accepts a requested mode exactly when it is one of the seven modes
  AutoPilot, Manual, Pattern, Audio, AudioRaw, ManualForce, ManualLocked; for every other
  value, \<open>Door\<close> included, it fails with the error "Mode ... does not exist!" and the state
  of the caller is left as it was.
\<close>

theorem setMode_accepts_selectable_modes:
  "(mode \<in> set [''AutoPilot'', ''Manual'', ''Pattern'', ''Audio'', ''AudioRaw'',
                  ''ManualForce'', ''ManualLocked'']
      \<longrightarrow> (\<exists>x. setMode mode s = Inr x))
   \<and> (mode \<notin> set [''AutoPilot'', ''Manual'', ''Pattern'', ''Audio'', ''AudioRaw'',
                    ''ManualForce'', ''ManualLocked'']
      \<longrightarrow> setMode mode s = Inl (Error (''Mode '' @ mode @ '' does not exist!''))
          \<and> setMode_unawaited mode s = (s, []))"
  by (simp add: setMode_eq setMode_unawaited_def)

theorem setMode_accepts_selectable_modes_witness:
  "(\<exists>x. setMode ''Audio'' (setupLightHandler ''Manual'') = Inr x)
   \<and> setMode ''Disco'' (setupLightHandler ''Manual'') = Inl (Error ''Mode Disco does not exist!'')
   \<and> setMode_unawaited ''Disco'' (setupLightHandler ''Manual'') = (setupLightHandler ''Manual'', [])"
  using setMode_accepts_selectable_modes [of "''Audio''" "setupLightHandler ''Manual''"]
    setMode_accepts_selectable_modes [of "''Disco''" "setupLightHandler ''Manual''"]
  by simp

text \<open>
  C2, as the spec states it: after \<open>setMode(m)\<close> with \<open>m\<close> not the current mode, \<open>lastMode\<close>
  is the mode that was current before the call. From \<open>Manual\<close>, \<open>setMode("Pattern")\<close> leaves
  \<open>lastMode\<close> at \<open>Pattern\<close>.
\<close>

theorem setMode_lastMode_not_previous:
  "setMode ''Pattern'' (setupLightHandler ''Manual'')
     = Inr (setupLightHandler ''Pattern'',
            [Broadcast ''mode-update'' (Mode ''Pattern''), SaveSettings])
   \<and> lastMode (setupLightHandler ''Pattern'') \<noteq> lightMode (setupLightHandler ''Manual'')"
  by (simp add: setMode_def setupLightHandler_def Let_def)

text \<open>
  C2, amended: after every successful call \<open>setMode(m)\<close> the current mode and \<open>lastMode\<close>
  both equal \<open>m\<close> (\<open>lastMode\<close> is the mode selected last, not the mode that was current
  before the call); when \<open>m\<close> equals the current mode, \<open>lastMode\<close> is left unchanged.
\<close>

theorem setMode_sets_both_modes:
  assumes "setMode m (after m0 evs) = Inr (s', out)"
  shows "lightMode s' = m \<and> lastMode s' = m
         \<and> (lightMode (after m0 evs) = m \<longrightarrow> lastMode s' = lastMode (after m0 evs))"
proof -
  have sel: "m \<noteq> ''Door''" and s': "lightMode s' = m" "lastMode s' = m"
    using assms by (auto simp: setMode_eq split: if_splits)
  have "lightMode (after m0 evs) = m \<Longrightarrow> lastMode (after m0 evs) = m"
    using mode_inv_after [of m0 evs] sel by (auto simp: mode_inv_def)
  with s' show ?thesis by simp
qed

theorem setMode_sets_both_modes_witness:
  "setMode ''Pattern'' (after ''Manual'' [Door True])
     = Inr ((setupLightHandler ''Manual'')
              \<lparr>lightMode := ''Pattern'', lastMode := ''Pattern'',
               settings_controllerMode := ''Pattern''\<rparr>,
            [Broadcast ''mode-update'' (Mode ''Pattern''), SaveSettings])
   \<and> setMode ''Manual'' (after ''Manual'' [])
     = Inr (setupLightHandler ''Manual'', [Broadcast ''mode-update'' (Mode ''Manual'')])
   \<and> lightMode (after ''Manual'' []) = ''Manual''
   \<and> lastMode (setupLightHandler ''Manual'') = lastMode (after ''Manual'' [])"
proof -
  have a: "setMode ''Pattern'' (after ''Manual'' [Door True])
     = Inr ((setupLightHandler ''Manual'')
              \<lparr>lightMode := ''Pattern'', lastMode := ''Pattern'',
               settings_controllerMode := ''Pattern''\<rparr>,
            [Broadcast ''mode-update'' (Mode ''Pattern''), SaveSettings])"
    by (simp add: after_def door_eq setMode_eq setupLightHandler_def)
  have b: "setMode ''Manual'' (after ''Manual'' [])
     = Inr (setupLightHandler ''Manual'', [Broadcast ''mode-update'' (Mode ''Manual'')])"
    by (simp add: after_def setMode_eq setupLightHandler_def)
  have c: "lightMode (after ''Manual'' []) = ''Manual''"
    by (simp add: after_def setupLightHandler_def)
  show ?thesis
    using a b c setMode_sets_both_modes [OF a] setMode_sets_both_modes [OF b]
    by (simp add: after_def setupLightHandler_def)
qed

text \<open>
  C3, as the spec states it: \<open>setMode(m)\<close> with \<open>m\<close> the current mode emits no mode
  broadcast. In mode \<open>Manual\<close>, \<open>setMode("Manual")\<close> broadcasts \<open>mode-update\<close>.
\<close>

theorem setMode_same_mode_broadcasts:
  "lightMode (setupLightHandler ''Manual'') = ''Manual''
   \<and> setMode ''Manual'' (setupLightHandler ''Manual'')
       = Inr (setupLightHandler ''Manual'', [Broadcast ''mode-update'' (Mode ''Manual'')])"
  by (simp add: setMode_def setupLightHandler_def Let_def)

text \<open>
  C3, amended: for every call \<open>setMode(m)\<close> where \<open>m\<close> is one of the seven selectable modes
  and already equals the current mode, the call performs no persistence (\<open>saveSettings\<close> is
  not invoked) and its only effect on the outside is the broadcast \<open>mode-update\<close> of \<open>m\<close>;
  it cancels any pending door debounce timer and any running fade-back animation; all
  other state is unchanged.
\<close>

theorem setMode_same_mode:
  assumes "m \<in> set [''AutoPilot'', ''Manual'', ''Pattern'', ''Audio'', ''AudioRaw'',
                     ''ManualForce'', ''ManualLocked'']"
    and "lightMode (after m0 evs) = m"
  shows "setMode m (after m0 evs)
           = Inr ((after m0 evs)\<lparr>doorFrameLoop := None, de_pending := False\<rparr>,
                  [Broadcast ''mode-update'' (Mode m)])"
proof -
  have "m \<noteq> ''Door''" using assms(1) by auto
  with assms(2) mode_inv_after [of m0 evs]
  have "lastMode (after m0 evs) = m" "settings_controllerMode (after m0 evs) = m"
    by (auto simp: mode_inv_def)
  with assms show ?thesis
    by (cases "after m0 evs") (simp add: setMode_eq)
qed

theorem setMode_same_mode_witness:
  "lightMode (after ''Manual'' [Door False]) = ''Manual''
   \<and> de_pending (after ''Manual'' [Door False])
   \<and> setMode ''Manual'' (after ''Manual'' [Door False])
       = Inr (setupLightHandler ''Manual'', [Broadcast ''mode-update'' (Mode ''Manual'')])"
proof -
  have a: "''Manual'' \<in> set [''AutoPilot'', ''Manual'', ''Pattern'', ''Audio'', ''AudioRaw'',
                     ''ManualForce'', ''ManualLocked'']"
    by simp
  have b: "lightMode (after ''Manual'' [Door False]) = ''Manual''"
    by (simp add: after_def door_eq setupLightHandler_def)
  have c: "after ''Manual'' [Door False] = (setupLightHandler ''Manual'')\<lparr>de_pending := True\<rparr>"
    by (simp add: after_def door_eq setupLightHandler_def)
  show ?thesis
    using b setMode_same_mode [OF a b] by (simp add: c setupLightHandler_def)
qed

section \<open>The tick loop\<close>

text \<open>
  C6: a frame whose processing time \<open>dateEnd - now\<close> exceeds the frame interval
  \<open>SERVER_FPS\<close> does not stop the loop: after the effects of the frame itself the tick logs
  "Server is lagging!" and schedules the next frame with delay 0.
\<close>

theorem tick_overrun_reschedules_immediately:
  assumes "SERVER_FPS < dateEnd e - now e"
  shows "timeout (fst (tick e s)) = Some 0
         \<and> snd (tick e s) =
             (if fst (isStateChanged (autoPilot_state e) s)
              then snd (changeState (audio_rgb e) (setIfPossible_ok e)
                          (snd (isStateChanged (autoPilot_state e) s)))
              else [])
             @ [LoggerDebug ''Server is lagging!'']
         \<and> step (TickFires e') (fst (tick e s)) = tick e' (fst (tick e s))"
  using assms by (simp add: tick_def Let_def split_beta)

theorem tick_overrun_reschedules_immediately_witness:
  "SERVER_FPS
     < dateEnd \<lparr>autoPilot_state = white, audio_rgb = white, setIfPossible_ok = True,
                now = 1000, dateEnd = 1051\<rparr>
       - now \<lparr>autoPilot_state = white, audio_rgb = white, setIfPossible_ok = True,
               now = 1000, dateEnd = 1051\<rparr>
   \<and> timeout (fst (tick \<lparr>autoPilot_state = white, audio_rgb = white, setIfPossible_ok = True,
                          now = 1000, dateEnd = 1051\<rparr> (setupLightHandler ''Manual''))) = Some 0
   \<and> snd (tick \<lparr>autoPilot_state = white, audio_rgb = white, setIfPossible_ok = True,
                 now = 1000, dateEnd = 1051\<rparr> (setupLightHandler ''Manual''))
       = [SetRGB 0 0 0, Broadcast ''rgb-update'' (Color \<lparr>rgb_r = 0, rgb_g = 0, rgb_b = 0\<rparr>),
          LoggerDebug ''Server is lagging!'']"
proof -
  have h: "SERVER_FPS
     < dateEnd \<lparr>autoPilot_state = white, audio_rgb = white, setIfPossible_ok = True,
                now = 1000, dateEnd = 1051\<rparr>
       - now \<lparr>autoPilot_state = white, audio_rgb = white, setIfPossible_ok = True,
               now = 1000, dateEnd = 1051\<rparr>"
    by (simp add: SERVER_FPS_def SECOND_def)
  show ?thesis
    using h tick_overrun_reschedules_immediately [OF h, of "setupLightHandler ''Manual''"]
    by (simp add: isStateChanged_def changeState_def setupLightHandler_def Let_def)
qed

text \<open>
  C9: in the modes Manual, Pattern, ManualForce and ManualLocked \<open>isStateChanged\<close> answers
  true exactly when a channel of the target \<open>RGB\<close> differs from \<open>lastRGB\<close>. A tick then
  sends the target with \<open>setRGB\<close>, broadcasts it, and makes it the new \<open>lastRGB\<close>; a tick
  without a difference sends nothing. The target is left as it is, so the tick that follows
  a tick sends nothing: a target is pushed once.
\<close>

theorem tick_pushes_target_once:
  assumes "lightMode s \<in> set [''Manual'', ''Pattern'', ''ManualForce'', ''ManualLocked'']"
  shows "fst (isStateChanged ap s)
           = (rgb_r (RGB s) \<noteq> rgb_r (lastRGB s) \<or> rgb_g (RGB s) \<noteq> rgb_g (lastRGB s)
              \<or> rgb_b (RGB s) \<noteq> rgb_b (lastRGB s))
         \<and> snd (tick e s)
           = (if rgb_r (RGB s) \<noteq> rgb_r (lastRGB s) \<or> rgb_g (RGB s) \<noteq> rgb_g (lastRGB s)
                 \<or> rgb_b (RGB s) \<noteq> rgb_b (lastRGB s)
              then [SetRGB (rgb_r (RGB s)) (rgb_g (RGB s)) (rgb_b (RGB s)),
                    Broadcast ''rgb-update'' (Color (RGB s))]
              else [])
             @ (if SERVER_FPS < dateEnd e - now e then [LoggerDebug ''Server is lagging!'']
                else [])
         \<and> RGB (fst (tick e s)) = RGB s
         \<and> lastRGB (fst (tick e s)) = RGB s
         \<and> snd (tick e' (fst (tick e s)))
           = (if SERVER_FPS < dateEnd e' - now e' then [LoggerDebug ''Server is lagging!'']
              else [])"
proof -
  have m: "lightMode s \<noteq> ''Audio''" "lightMode s \<noteq> ''AudioRaw''" "lightMode s \<noteq> ''Door''"
    "lightMode s \<noteq> ''AutoPilot''"
    using assms by auto
  have changed: "isStateChanged ap s
      = (rgb_r (RGB s) \<noteq> rgb_r (lastRGB s) \<or> rgb_g (RGB s) \<noteq> rgb_g (lastRGB s)
           \<or> rgb_b (RGB s) \<noteq> rgb_b (lastRGB s), s)" for ap
    using m by (auto simp: isStateChanged_def Let_def)
  have push: "changeState a ok s
      = (s\<lparr>lastRGB := RGB s\<rparr>,
         [SetRGB (rgb_r (RGB s)) (rgb_g (RGB s)) (rgb_b (RGB s)),
          Broadcast ''rgb-update'' (Color (RGB s))])" for a ok
    using m by (simp add: changeState_def Let_def)
  have same: "lastRGB s = RGB s"
    if "\<not> (rgb_r (RGB s) \<noteq> rgb_r (lastRGB s) \<or> rgb_g (RGB s) \<noteq> rgb_g (lastRGB s)
           \<or> rgb_b (RGB s) \<noteq> rgb_b (lastRGB s))"
    using that by (intro rgb.equality) simp_all
  have out: "snd (tick e s)
      = (if rgb_r (RGB s) \<noteq> rgb_r (lastRGB s) \<or> rgb_g (RGB s) \<noteq> rgb_g (lastRGB s)
            \<or> rgb_b (RGB s) \<noteq> rgb_b (lastRGB s)
         then [SetRGB (rgb_r (RGB s)) (rgb_g (RGB s)) (rgb_b (RGB s)),
               Broadcast ''rgb-update'' (Color (RGB s))]
         else [])
        @ (if SERVER_FPS < dateEnd e - now e then [LoggerDebug ''Server is lagging!''] else [])"
    by (simp add: tick_def changed push Let_def)
  have target: "RGB (fst (tick e s)) = RGB s"
    by (simp add: tick_def changed push Let_def)
  have pushed: "lastRGB (fst (tick e s)) = RGB s"
    using same by (auto simp: tick_def changed push Let_def)
  have mode: "lightMode (fst (tick e s)) = lightMode s"
    by (simp add: tick_frame)
  have quiet: "fst (isStateChanged ap (fst (tick e s))) = False" for ap
    using m mode target pushed by (simp add: isStateChanged_def Let_def)
  have again: "snd (tick e' (fst (tick e s)))
      = (if SERVER_FPS < dateEnd e' - now e' then [LoggerDebug ''Server is lagging!''] else [])"
    using quiet [of "autoPilot_state e'"] by (simp add: tick_def [of e'] split_beta Let_def)
  show ?thesis
    using changed [of ap] out target pushed again by simp
qed

theorem tick_pushes_target_once_witness:
  "lightMode (after ''AutoPilot'' [RgbSet ''client'' 10 20 30])
     \<in> set [''Manual'', ''Pattern'', ''ManualForce'', ''ManualLocked'']
   \<and> RGB (after ''AutoPilot'' [RgbSet ''client'' 10 20 30])
       = \<lparr>rgb_r = 10, rgb_g = 20, rgb_b = 30\<rparr>
   \<and> snd (tick \<lparr>autoPilot_state = white, audio_rgb = white, setIfPossible_ok = True,
                 now = 1000, dateEnd = 1001\<rparr>
            (after ''AutoPilot'' [RgbSet ''client'' 10 20 30]))
       = [SetRGB 10 20 30,
          Broadcast ''rgb-update'' (Color \<lparr>rgb_r = 10, rgb_g = 20, rgb_b = 30\<rparr>)]
   \<and> snd (tick \<lparr>autoPilot_state = white, audio_rgb = white, setIfPossible_ok = True,
                 now = 1050, dateEnd = 1051\<rparr>
            (fst (tick \<lparr>autoPilot_state = white, audio_rgb = white, setIfPossible_ok = True,
                        now = 1000, dateEnd = 1001\<rparr>
                    (after ''AutoPilot'' [RgbSet ''client'' 10 20 30]))))
       = []"
proof -
  have s: "after ''AutoPilot'' [RgbSet ''client'' 10 20 30]
      = (setupLightHandler ''Manual'')\<lparr>RGB := \<lparr>rgb_r = 10, rgb_g = 20, rgb_b = 30\<rparr>\<rparr>"
    by (simp add: after_def rgb_set_def setMode_unawaited_def setMode_eq clamp_def
        setupLightHandler_def)
  have h: "lightMode (after ''AutoPilot'' [RgbSet ''client'' 10 20 30])
      \<in> set [''Manual'', ''Pattern'', ''ManualForce'', ''ManualLocked'']"
    by (simp add: s setupLightHandler_def)
  show ?thesis
    using h tick_pushes_target_once [OF h,
        of white "\<lparr>autoPilot_state = white, audio_rgb = white, setIfPossible_ok = True,
                 now = 1000, dateEnd = 1001\<rparr>"
           "\<lparr>autoPilot_state = white, audio_rgb = white, setIfPossible_ok = True,
                 now = 1050, dateEnd = 1051\<rparr>"]
    by (simp add: s setupLightHandler_def SERVER_FPS_def SECOND_def)
qed

text \<open>
  C10, as the spec states it: with one of the four modes loaded at the start, the first tick
  after the connect sequence always pushes black. Two runs in which no client sets a
  colour: the last client leaves before the light connects, so \<open>ManualForce\<close> gives way to
  \<open>AutoPilot\<close>, and the tick takes the colour of the autopilot, here white as \<open>lastRGB\<close>;
  or the door opens during the sequence, and the tick finds the mode \<open>Door\<close>. In both the
  last wake-up of \<open>onConnect\<close> sends the target colour and its tick sends nothing.
\<close>

theorem first_tick_after_event_pushes_nothing:
  "emitted ''ManualForce'' (AllClientsDisconnected # connect_and_intro env_1ms)
     = [Broadcast ''mode-update'' (Mode ''AutoPilot''), SaveSettings,
        SetRGB 255 0 0, SetRGB 0 255 0, SetRGB 0 0 255, SetRGB 0 0 0, SetRGB 0 0 0]
   \<and> emitted ''Manual''
       [Connect, ConnectResumes 0 env_1ms, Door True, ConnectResumes 0 env_1ms,
        ConnectResumes 0 env_1ms, ConnectResumes 0 env_1ms, ConnectResumes 0 env_1ms]
     = [SetRGB 255 0 0,
        SetRGB 255 255 255, Broadcast ''mode-update'' (Mode ''Door''),
        Broadcast ''rgb-update'' (Color \<lparr>rgb_r = 255, rgb_g = 255, rgb_b = 255\<rparr>),
        SetRGB 0 255 0, SetRGB 0 0 255, SetRGB 0 0 0, SetRGB 0 0 0]"
proof -
  have a: "run (setupLightHandler ''ManualForce'')
        [AllClientsDisconnected, Connect, ConnectResumes 0 env_1ms, ConnectResumes 0 env_1ms,
         ConnectResumes 0 env_1ms, ConnectResumes 0 env_1ms]
      = ((setupLightHandler ''AutoPilot'')\<lparr>connecting := [4]\<rparr>,
         [Broadcast ''mode-update'' (Mode ''AutoPilot''), SaveSettings,
          SetRGB 255 0 0, SetRGB 0 255 0, SetRGB 0 0 255, SetRGB 0 0 0])"
    by (simp add: all_clients_disconnected_def setMode_unawaited_def setMode_eq onConnect_eq
        onConnect_resume_def setupLightHandler_def)
  have a': "snd (onConnect_resume 0 env_1ms
        ((setupLightHandler ''AutoPilot'')\<lparr>connecting := [4]\<rparr>)) = [SetRGB 0 0 0]"
    by (simp add: onConnect_resume_def tick_called_def tick_def isStateChanged_def
        env_1ms_def white_def SERVER_FPS_def SECOND_def setupLightHandler_def Let_def)
  have b: "run (setupLightHandler ''Manual'')
        [Connect, ConnectResumes 0 env_1ms, Door True, ConnectResumes 0 env_1ms,
         ConnectResumes 0 env_1ms, ConnectResumes 0 env_1ms]
      = ((setupLightHandler ''Manual'')\<lparr>lightMode := ''Door'', connecting := [4]\<rparr>,
         [SetRGB 255 0 0,
          SetRGB 255 255 255, Broadcast ''mode-update'' (Mode ''Door''),
          Broadcast ''rgb-update'' (Color \<lparr>rgb_r = 255, rgb_g = 255, rgb_b = 255\<rparr>),
          SetRGB 0 255 0, SetRGB 0 0 255, SetRGB 0 0 0])"
    by (simp add: door_eq onConnect_eq onConnect_resume_def setupLightHandler_def)
  have b': "snd (onConnect_resume 0 env_1ms
        ((setupLightHandler ''Manual'')\<lparr>lightMode := ''Door'', connecting := [4]\<rparr>))
      = [SetRGB 0 0 0]"
    by (simp add: onConnect_resume_def tick_called_def tick_def isStateChanged_def
        env_1ms_def SERVER_FPS_def SECOND_def setupLightHandler_def Let_def)
  have "emitted ''ManualForce''
        ([AllClientsDisconnected, Connect, ConnectResumes 0 env_1ms, ConnectResumes 0 env_1ms,
          ConnectResumes 0 env_1ms, ConnectResumes 0 env_1ms] @ [ConnectResumes 0 env_1ms])
      = [Broadcast ''mode-update'' (Mode ''AutoPilot''), SaveSettings,
         SetRGB 255 0 0, SetRGB 0 255 0, SetRGB 0 0 255, SetRGB 0 0 0, SetRGB 0 0 0]"
    unfolding emitted_def run_snoc a by (simp add: a')
  moreover have "emitted ''Manual''
        ([Connect, ConnectResumes 0 env_1ms, Door True, ConnectResumes 0 env_1ms,
          ConnectResumes 0 env_1ms, ConnectResumes 0 env_1ms] @ [ConnectResumes 0 env_1ms])
      = [SetRGB 255 0 0,
         SetRGB 255 255 255, Broadcast ''mode-update'' (Mode ''Door''),
         Broadcast ''rgb-update'' (Color \<lparr>rgb_r = 255, rgb_g = 255, rgb_b = 255\<rparr>),
         SetRGB 0 255 0, SetRGB 0 0 255, SetRGB 0 0 0, SetRGB 0 0 0]"
    unfolding emitted_def run_snoc b by (simp add: b')
  ultimately show ?thesis by (simp add: connect_and_intro_def)
qed

text \<open>
  C10, amended: the setup starts with the target (0,0,0) and \<open>lastRGB\<close> (255,255,255).
  If the loaded mode is Manual, Pattern, ManualForce or ManualLocked, and the mode, the
  target and \<open>lastRGB\<close> are still as the setup left them when \<open>onConnect\<close> comes to the end
  of its sequence, as they are when no other event arrives before, then the first tick,
  which \<open>onConnect\<close> runs after it has sent the target colour, finds a change, sends
  (0,0,0) to the device and broadcasts it, though no client has set a colour.
\<close>

theorem first_tick_pushes_black:
  assumes "m \<in> set [''Manual'', ''Pattern'', ''ManualForce'', ''ManualLocked'']"
  shows "RGB (setupLightHandler m) = \<lparr>rgb_r = 0, rgb_g = 0, rgb_b = 0\<rparr>
         \<and> lastRGB (setupLightHandler m) = \<lparr>rgb_r = 255, rgb_g = 255, rgb_b = 255\<rparr>
         \<and> emitted m (connect_and_intro e)
           = [SetRGB 255 0 0, SetRGB 0 255 0, SetRGB 0 0 255, SetRGB 0 0 0, SetRGB 0 0 0]
             @ [SetRGB 0 0 0, Broadcast ''rgb-update'' (Color \<lparr>rgb_r = 0, rgb_g = 0, rgb_b = 0\<rparr>)]
             @ (if SERVER_FPS < dateEnd e - now e then [LoggerDebug ''Server is lagging!'']
                else [])
         \<and> (\<forall>s i. lightMode s = m \<and> RGB s = RGB (setupLightHandler m)
                  \<and> lastRGB s = lastRGB (setupLightHandler m)
                  \<and> i < length (connecting s) \<and> connecting s ! i = 4
              \<longrightarrow> fst (isStateChanged (autoPilot_state e) s)
                  \<and> snd (step (ConnectResumes i e) s)
                    = [SetRGB 0 0 0]
                      @ [SetRGB 0 0 0,
                         Broadcast ''rgb-update'' (Color \<lparr>rgb_r = 0, rgb_g = 0, rgb_b = 0\<rparr>)]
                      @ (if SERVER_FPS < dateEnd e - now e
                         then [LoggerDebug ''Server is lagging!''] else []))"
proof -
  have m: "m \<noteq> ''Audio''" "m \<noteq> ''AudioRaw''" "m \<noteq> ''Door''" "m \<noteq> ''AutoPilot''"
    using assms by auto
  have tick_black: "fst (isStateChanged (autoPilot_state e) s)
      \<and> snd (tick e s)
        = [SetRGB 0 0 0, Broadcast ''rgb-update'' (Color \<lparr>rgb_r = 0, rgb_g = 0, rgb_b = 0\<rparr>)]
          @ (if SERVER_FPS < dateEnd e - now e then [LoggerDebug ''Server is lagging!''] else [])"
    if "lightMode s = m" "RGB s = \<lparr>rgb_r = 0, rgb_g = 0, rgb_b = 0\<rparr>"
      "lastRGB s = \<lparr>rgb_r = 255, rgb_g = 255, rgb_b = 255\<rparr>" for s
    using m that by (simp add: tick_def isStateChanged_def changeState_def Let_def)
  have called_black: "snd (tick_called e s)
        = [SetRGB 0 0 0, Broadcast ''rgb-update'' (Color \<lparr>rgb_r = 0, rgb_g = 0, rgb_b = 0\<rparr>)]
          @ (if SERVER_FPS < dateEnd e - now e then [LoggerDebug ''Server is lagging!''] else [])"
    if "lightMode s = m" "RGB s = \<lparr>rgb_r = 0, rgb_g = 0, rgb_b = 0\<rparr>"
      "lastRGB s = \<lparr>rgb_r = 255, rgb_g = 255, rgb_b = 255\<rparr>" for s
    unfolding tick_called_def using that by (cases "timeout s") (simp_all add: tick_black)
  have last: "fst (isStateChanged (autoPilot_state e) s)
      \<and> snd (step (ConnectResumes i e) s)
        = [SetRGB 0 0 0]
          @ [SetRGB 0 0 0, Broadcast ''rgb-update'' (Color \<lparr>rgb_r = 0, rgb_g = 0, rgb_b = 0\<rparr>)]
          @ (if SERVER_FPS < dateEnd e - now e then [LoggerDebug ''Server is lagging!''] else [])"
    if "lightMode s = m" "RGB s = \<lparr>rgb_r = 0, rgb_g = 0, rgb_b = 0\<rparr>"
      "lastRGB s = \<lparr>rgb_r = 255, rgb_g = 255, rgb_b = 255\<rparr>"
      "i < length (connecting s)" "connecting s ! i = 4" for s i
  proof -
    have "snd (tick_called e (s\<lparr>connecting := take i (connecting s) @ drop (Suc i) (connecting s)\<rparr>))
        = [SetRGB 0 0 0, Broadcast ''rgb-update'' (Color \<lparr>rgb_r = 0, rgb_g = 0, rgb_b = 0\<rparr>)]
          @ (if SERVER_FPS < dateEnd e - now e then [LoggerDebug ''Server is lagging!''] else [])"
      using that(1-3) by (intro called_black) simp_all
    with that tick_black [of s] show ?thesis
      by (simp add: onConnect_resume_def split_beta Let_def)
  qed
  have four: "run (setupLightHandler m)
        [Connect, ConnectResumes 0 e, ConnectResumes 0 e, ConnectResumes 0 e, ConnectResumes 0 e]
      = ((setupLightHandler m)\<lparr>connecting := [4]\<rparr>,
         [SetRGB 255 0 0, SetRGB 0 255 0, SetRGB 0 0 255, SetRGB 0 0 0])"
    by (simp add: onConnect_eq onConnect_resume_def setupLightHandler_def)
  have "emitted m ([Connect, ConnectResumes 0 e, ConnectResumes 0 e, ConnectResumes 0 e,
          ConnectResumes 0 e] @ [ConnectResumes 0 e])
      = [SetRGB 255 0 0, SetRGB 0 255 0, SetRGB 0 0 255, SetRGB 0 0 0]
        @ snd (step (ConnectResumes 0 e) ((setupLightHandler m)\<lparr>connecting := [4]\<rparr>))"
    unfolding emitted_def run_snoc four by simp
  then have "emitted m (connect_and_intro e)
      = [SetRGB 255 0 0, SetRGB 0 255 0, SetRGB 0 0 255, SetRGB 0 0 0]
        @ snd (step (ConnectResumes 0 e) ((setupLightHandler m)\<lparr>connecting := [4]\<rparr>))"
    by (simp add: connect_and_intro_def)
  moreover have "snd (step (ConnectResumes 0 e) ((setupLightHandler m)\<lparr>connecting := [4]\<rparr>))
      = [SetRGB 0 0 0]
        @ [SetRGB 0 0 0, Broadcast ''rgb-update'' (Color \<lparr>rgb_r = 0, rgb_g = 0, rgb_b = 0\<rparr>)]
        @ (if SERVER_FPS < dateEnd e - now e then [LoggerDebug ''Server is lagging!''] else [])"
    using last [of "(setupLightHandler m)\<lparr>connecting := [4]\<rparr>" 0]
    by (simp add: setupLightHandler_def)
  ultimately have whole: "emitted m (connect_and_intro e)
      = [SetRGB 255 0 0, SetRGB 0 255 0, SetRGB 0 0 255, SetRGB 0 0 0, SetRGB 0 0 0]
        @ [SetRGB 0 0 0, Broadcast ''rgb-update'' (Color \<lparr>rgb_r = 0, rgb_g = 0, rgb_b = 0\<rparr>)]
        @ (if SERVER_FPS < dateEnd e - now e then [LoggerDebug ''Server is lagging!''] else [])"
    by simp
  have start: "RGB (setupLightHandler m) = \<lparr>rgb_r = 0, rgb_g = 0, rgb_b = 0\<rparr>"
    "lastRGB (setupLightHandler m) = \<lparr>rgb_r = 255, rgb_g = 255, rgb_b = 255\<rparr>"
    by (simp_all add: setupLightHandler_def)
  from start whole last show ?thesis
    by (simp only: start) blast
qed

theorem first_tick_pushes_black_witness:
  "''ManualForce'' \<in> set [''Manual'', ''Pattern'', ''ManualForce'', ''ManualLocked'']
   \<and> emitted ''ManualForce'' (connect_and_intro env_1ms)
       = [SetRGB 255 0 0, SetRGB 0 255 0, SetRGB 0 0 255, SetRGB 0 0 0, SetRGB 0 0 0,
          SetRGB 0 0 0, Broadcast ''rgb-update'' (Color \<lparr>rgb_r = 0, rgb_g = 0, rgb_b = 0\<rparr>)]
   \<and> lightMode (after ''ManualForce''
         [Connect, ConnectResumes 0 env_1ms, Disconnect, ConnectResumes 0 env_1ms, Door False,
          ConnectResumes 0 env_1ms, ConnectResumes 0 env_1ms]) = ''ManualForce''
   \<and> connecting (after ''ManualForce''
         [Connect, ConnectResumes 0 env_1ms, Disconnect, ConnectResumes 0 env_1ms, Door False,
          ConnectResumes 0 env_1ms, ConnectResumes 0 env_1ms]) = [4]
   \<and> snd (step (ConnectResumes 0 env_1ms) (after ''ManualForce''
         [Connect, ConnectResumes 0 env_1ms, Disconnect, ConnectResumes 0 env_1ms, Door False,
          ConnectResumes 0 env_1ms, ConnectResumes 0 env_1ms]))
       = [SetRGB 0 0 0, SetRGB 0 0 0,
          Broadcast ''rgb-update'' (Color \<lparr>rgb_r = 0, rgb_g = 0, rgb_b = 0\<rparr>)]"
proof -
  have h: "''ManualForce'' \<in> set [''Manual'', ''Pattern'', ''ManualForce'', ''ManualLocked'']"
    by simp
  have s: "after ''ManualForce''
         [Connect, ConnectResumes 0 env_1ms, Disconnect, ConnectResumes 0 env_1ms, Door False,
          ConnectResumes 0 env_1ms, ConnectResumes 0 env_1ms]
      = (setupLightHandler ''ManualForce'')\<lparr>de_pending := True, connecting := [4]\<rparr>"
    by (simp add: after_def onConnect_eq onConnect_resume_def disconnect_eq door_eq
        setupLightHandler_def)
  have lag: "\<not> SERVER_FPS < dateEnd env_1ms - now env_1ms"
    by (simp add: env_1ms_def SERVER_FPS_def SECOND_def)
  show ?thesis
    using h lag first_tick_pushes_black [OF h, of env_1ms]
    by (simp add: s setupLightHandler_def)
qed

section \<open>The door\<close>

text \<open>
  C7: a door-open event in mode \<open>ManualLocked\<close> changes nothing and emits nothing; in every
  other mode the mode becomes \<open>Door\<close>, the door timers are cancelled, (255,255,255) is sent
  to the device with \<open>setRGB\<close>, and the mode and white are broadcast.
\<close>

theorem door_open_forces_white:
  "(lightMode s = ''ManualLocked'' \<longrightarrow> door True s = (s, []))
   \<and> (lightMode s \<noteq> ''ManualLocked'' \<longrightarrow>
        door True s =
          (s\<lparr>doorFrameLoop := None, de_pending := False, lightMode := ''Door''\<rparr>,
           [SetRGB 255 255 255,
            Broadcast ''mode-update'' (Mode ''Door''),
            Broadcast ''rgb-update'' (Color \<lparr>rgb_r = 255, rgb_g = 255, rgb_b = 255\<rparr>)]))"
  by (simp add: door_eq)

theorem door_open_forces_white_witness:
  "lightMode (setupLightHandler ''ManualLocked'') = ''ManualLocked''
   \<and> door True (setupLightHandler ''ManualLocked'') = (setupLightHandler ''ManualLocked'', [])
   \<and> lightMode (setupLightHandler ''Audio'') \<noteq> ''ManualLocked''
   \<and> door True (setupLightHandler ''Audio'') =
        ((setupLightHandler ''Audio'')\<lparr>lightMode := ''Door''\<rparr>,
         [SetRGB 255 255 255,
          Broadcast ''mode-update'' (Mode ''Door''),
          Broadcast ''rgb-update'' (Color \<lparr>rgb_r = 255, rgb_g = 255, rgb_b = 255\<rparr>)])"
  using door_open_forces_white [of "setupLightHandler ''ManualLocked''"]
    door_open_forces_white [of "setupLightHandler ''Audio''"]
  by (simp add: setupLightHandler_def)

section \<open>The door timers\<close>

lemma setMode_unawaited_loop:
  "doorFrameLoop s = None \<Longrightarrow> doorFrameLoop (fst (setMode_unawaited m s)) = None"
  by (simp add: setMode_unawaited_def setMode_eq)

lemma setMode_unawaited_de:
  "\<not> de_pending s \<Longrightarrow> \<not> de_pending (fst (setMode_unawaited m s))"
  by (simp add: setMode_unawaited_def setMode_eq)


text \<open>Only the debounce creates the fade interval.\<close>

lemma step_keeps_no_loop:
  assumes "ev \<noteq> DebounceFires" and "doorFrameLoop s = None"
  shows "doorFrameLoop (fst (step ev s)) = None"
proof (cases ev)
  case (RgbSet c x y z)
  with assms(2) show ?thesis
    by (simp add: rgb_set_def split_beta setMode_unawaited_loop)
next
  case (ModeSet m)
  with assms(2) show ?thesis by (simp add: mode_set_def setMode_unawaited_loop)
next
  case AllClientsDisconnected
  with assms(2) show ?thesis
    by (simp add: all_clients_disconnected_def setMode_unawaited_loop)
next
  case (Door level)
  with assms(2) show ?thesis by (simp add: door_eq)
next
  case DebounceFires
  with assms(1) show ?thesis by simp
next
  case DoorFrameFires
  with assms(2) show ?thesis by simp
next
  case (TickFires e)
  with assms(2) show ?thesis by (simp add: tick_frame)
next
  case (LostTickFires i e)
  with assms(2) show ?thesis by (simp add: tick_called_frame)
next
  case Connect
  with assms(2) show ?thesis by (simp add: onConnect_eq)
next
  case (ConnectResumes i e)
  with assms(2) show ?thesis by (simp add: onConnect_resume_frame)
next
  case Disconnect
  with assms(2) show ?thesis by (simp add: disconnect_eq)
next
  case Destroy
  with assms(2) show ?thesis by (simp add: destroy_def)
qed

lemma run_keeps_no_loop:
  "DebounceFires \<notin> set evs \<Longrightarrow> doorFrameLoop s = None
     \<Longrightarrow> doorFrameLoop (fst (run s evs)) = None"
proof (induction evs arbitrary: s)
  case Nil
  then show ?case by simp
next
  case (Cons ev evs)
  from Cons.prems have "ev \<noteq> DebounceFires" by auto
  then have "doorFrameLoop (fst (step ev s)) = None"
    using Cons.prems(2) by (rule step_keeps_no_loop)
  moreover from Cons.prems have "DebounceFires \<notin> set evs" by simp
  ultimately have "doorFrameLoop (fst (run (fst (step ev s)) evs)) = None"
    by (intro Cons.IH)
  then show ?case by (simp add: split_beta)
qed

text \<open>Only a door-close arms the debounce.\<close>

lemma step_keeps_door_idle:
  assumes "ev \<noteq> Door False" and "\<not> de_pending s" and "doorFrameLoop s = None"
  shows "\<not> de_pending (fst (step ev s)) \<and> doorFrameLoop (fst (step ev s)) = None"
proof (cases ev)
  case (RgbSet c x y z)
  with assms(2,3) show ?thesis
    by (simp add: rgb_set_def split_beta setMode_unawaited_loop setMode_unawaited_de)
next
  case (ModeSet m)
  with assms(2,3) show ?thesis
    by (simp add: mode_set_def setMode_unawaited_loop setMode_unawaited_de)
next
  case AllClientsDisconnected
  with assms(2,3) show ?thesis
    by (simp add: all_clients_disconnected_def setMode_unawaited_loop setMode_unawaited_de)
next
  case (Door level)
  with assms show ?thesis by (simp add: door_eq)
next
  case DebounceFires
  with assms(2,3) show ?thesis by simp
next
  case DoorFrameFires
  with assms(2,3) show ?thesis by simp
next
  case (TickFires e)
  with assms(2,3) show ?thesis by (simp add: tick_frame)
next
  case (LostTickFires i e)
  with assms(2,3) show ?thesis by (simp add: tick_called_frame)
next
  case Connect
  with assms(2,3) show ?thesis by (simp add: onConnect_eq)
next
  case (ConnectResumes i e)
  with assms(2,3) show ?thesis by (simp add: onConnect_resume_frame)
next
  case Disconnect
  with assms(2,3) show ?thesis by (simp add: disconnect_eq)
next
  case Destroy
  with assms(2,3) show ?thesis by (simp add: destroy_def)
qed

lemma run_keeps_door_idle:
  "Door False \<notin> set evs \<Longrightarrow> \<not> de_pending s \<Longrightarrow> doorFrameLoop s = None
     \<Longrightarrow> \<not> de_pending (fst (run s evs)) \<and> doorFrameLoop (fst (run s evs)) = None"
proof (induction evs arbitrary: s)
  case Nil
  then show ?case by simp
next
  case (Cons ev evs)
  from Cons.prems have "ev \<noteq> Door False" by auto
  then have "\<not> de_pending (fst (step ev s)) \<and> doorFrameLoop (fst (step ev s)) = None"
    using Cons.prems(2,3) by (rule step_keeps_door_idle)
  moreover from Cons.prems have "Door False \<notin> set evs" by simp
  ultimately have "\<not> de_pending (fst (run (fst (step ev s)) evs))
      \<and> doorFrameLoop (fst (run (fst (step ev s)) evs)) = None"
    by (intro Cons.IH) simp_all
  then show ?case by (simp add: split_beta)
qed

lemma door_close_no_loop:
  assumes "mode_inv s"
  shows "doorFrameLoop (fst (door False s)) = None"
  using assms by (auto simp: door_eq mode_inv_def)

lemma door_open_idle:
  assumes "mode_inv s"
  shows "\<not> de_pending (fst (door True s)) \<and> doorFrameLoop (fst (door True s)) = None"
  using assms by (auto simp: door_eq mode_inv_def)

text \<open>
  C8: a door-close that is followed by a door-open before the debounce has fired starts no
  fade. From the setup, after any events \<open>evs1\<close>, a door-close, and events \<open>evs2\<close> among
  which the debounce does not fire, no fade interval exists (so at every moment between
  the close and the open); after the door-open that follows and any further events \<open>evs3\<close>
  without a new door-close, no fade interval exists and no debounce is pending, and the
  interval callback of the fade has nothing to run.
\<close>

theorem reopened_door_starts_no_fade:
  assumes "DebounceFires \<notin> set evs2" and "Door False \<notin> set evs3"
  shows "doorFrameLoop (after m (evs1 @ Door False # evs2)) = None
         \<and> doorFrameLoop (after m (evs1 @ Door False # evs2 @ Door True # evs3)) = None
         \<and> \<not> de_pending (after m (evs1 @ Door False # evs2 @ Door True # evs3))
         \<and> step DoorFrameFires (after m (evs1 @ Door False # evs2 @ Door True # evs3))
           = (after m (evs1 @ Door False # evs2 @ Door True # evs3), [])"
proof -
  have closed: "after m (evs1 @ Door False # evs2)
      = fst (run (fst (door False (after m evs1))) evs2)"
    by (simp add: after_append split_beta)
  have a: "doorFrameLoop (after m (evs1 @ Door False # evs2)) = None"
    unfolding closed
    using assms(1) by (intro run_keeps_no_loop door_close_no_loop mode_inv_after)
  have opened: "after m (evs1 @ Door False # evs2 @ Door True # evs3)
      = fst (run (fst (door True (after m (evs1 @ Door False # evs2)))) evs3)"
    using after_append [of m "evs1 @ Door False # evs2" "Door True # evs3"]
    by (simp add: split_beta)
  have idle: "\<not> de_pending (fst (door True (after m (evs1 @ Door False # evs2))))
      \<and> doorFrameLoop (fst (door True (after m (evs1 @ Door False # evs2)))) = None"
    by (intro door_open_idle mode_inv_after)
  have b: "\<not> de_pending (after m (evs1 @ Door False # evs2 @ Door True # evs3))
      \<and> doorFrameLoop (after m (evs1 @ Door False # evs2 @ Door True # evs3)) = None"
    unfolding opened using assms(2) idle by (intro run_keeps_door_idle) simp_all
  from a b show ?thesis by simp
qed

theorem reopened_door_starts_no_fade_witness:
  "DebounceFires \<notin> set [DoorFrameFires, ModeSet ''Door'']
   \<and> Door False \<notin> set [DebounceFires, DoorFrameFires]
   \<and> doorFrameLoop
       (after ''Manual'' ([RgbSet ''client'' 1 2 3] @ Door False # [DoorFrameFires, ModeSet ''Door'']
          @ Door True # [DebounceFires, DoorFrameFires])) = None
   \<and> emitted ''Manual'' ([RgbSet ''client'' 1 2 3] @ Door False # [DoorFrameFires, ModeSet ''Door'']
          @ Door True # [DebounceFires, DoorFrameFires])
       = [Broadcast ''mode-update'' (Mode ''Manual''),
          Broadcast ''mode-update'' (Mode ''Manual''),
          Broadcast ''rgb-update'' (Color \<lparr>rgb_r = 255, rgb_g = 255, rgb_b = 255\<rparr>),
          SetRGB 255 255 255,
          Broadcast ''mode-update'' (Mode ''Door''),
          Broadcast ''rgb-update'' (Color \<lparr>rgb_r = 255, rgb_g = 255, rgb_b = 255\<rparr>)]"
proof -
  have h1: "DebounceFires \<notin> set [DoorFrameFires, ModeSet ''Door'']" by simp
  have h2: "Door False \<notin> set [DebounceFires, DoorFrameFires]" by simp
  have out: "emitted ''Manual'' ([RgbSet ''client'' 1 2 3] @ Door False # [DoorFrameFires, ModeSet ''Door'']
          @ Door True # [DebounceFires, DoorFrameFires])
       = [Broadcast ''mode-update'' (Mode ''Manual''),
          Broadcast ''mode-update'' (Mode ''Manual''),
          Broadcast ''rgb-update'' (Color \<lparr>rgb_r = 255, rgb_g = 255, rgb_b = 255\<rparr>),
          SetRGB 255 255 255,
          Broadcast ''mode-update'' (Mode ''Door''),
          Broadcast ''rgb-update'' (Color \<lparr>rgb_r = 255, rgb_g = 255, rgb_b = 255\<rparr>)]"
    by (simp add: emitted_def rgb_set_def mode_set_def setMode_unawaited_def setMode_eq door_eq
        setupLightHandler_def)
  show ?thesis
    using h1 h2 out
      reopened_door_starts_no_fade [OF h1 h2, of "''Manual''" "[RgbSet ''client'' 1 2 3]"]
    by simp
qed


section \<open>Disconnecting\<close>





text \<open>
  The tick loop itself can outlive a disconnect. A disconnect while \<open>onConnect\<close> sleeps
  finds no timer to clear, and the call goes on to send its colours and to start the
  loop. When a second connect comes during the sequence of the first, the two calls wake
  up in turn and both end in \<open>tick()\<close>: the second overwrites the handle in \<open>timeout\<close>,
  and the timer of the first loop is out of reach. The disconnect that follows clears the
  timer of one loop; the other loop ticks on and sends the next colour that is set.
\<close>

lemma overlapping_connects_keep_a_tick_loop:
  "emitted ''Manual'' [Connect, ConnectResumes 0 env_1ms, Disconnect, ConnectResumes 0 env_1ms]
     = [SetRGB 255 0 0, SetRGB 0 255 0]
   \<and> run (setupLightHandler ''Manual'')
        ([Connect, Disconnect, Connect,
          ConnectResumes 0 env_1ms, ConnectResumes 1 env_1ms,
          ConnectResumes 0 env_1ms, ConnectResumes 1 env_1ms,
          ConnectResumes 0 env_1ms, ConnectResumes 1 env_1ms,
          ConnectResumes 0 env_1ms, ConnectResumes 1 env_1ms]
         @ [ConnectResumes 0 env_1ms, ConnectResumes 0 env_1ms]
         @ [Disconnect, RgbSet ''client'' 1 2 3, LostTickFires 0 env_1ms])
     = ((setupLightHandler ''Manual'')
          \<lparr>RGB := \<lparr>rgb_r = 1, rgb_g = 2, rgb_b = 3\<rparr>,
           lastRGB := \<lparr>rgb_r = 1, rgb_g = 2, rgb_b = 3\<rparr>, timeout := Some 49\<rparr>,
        [SetRGB 255 0 0, SetRGB 255 0 0, SetRGB 0 255 0, SetRGB 0 255 0,
         SetRGB 0 0 255, SetRGB 0 0 255, SetRGB 0 0 0, SetRGB 0 0 0]
        @ [SetRGB 0 0 0, SetRGB 0 0 0,
           Broadcast ''rgb-update'' (Color \<lparr>rgb_r = 0, rgb_g = 0, rgb_b = 0\<rparr>),
           SetRGB 0 0 0]
        @ [Broadcast ''mode-update'' (Mode ''Manual''),
           SetRGB 1 2 3, Broadcast ''rgb-update'' (Color \<lparr>rgb_r = 1, rgb_g = 2, rgb_b = 3\<rparr>)])"
proof -
  have a: "emitted ''Manual''
        [Connect, ConnectResumes 0 env_1ms, Disconnect, ConnectResumes 0 env_1ms]
      = [SetRGB 255 0 0, SetRGB 0 255 0]"
    by (simp add: emitted_def onConnect_eq onConnect_resume_def disconnect_eq
        setupLightHandler_def)
  have s1: "run (setupLightHandler ''Manual'')
        [Connect, Disconnect, Connect,
         ConnectResumes 0 env_1ms, ConnectResumes 1 env_1ms,
         ConnectResumes 0 env_1ms, ConnectResumes 1 env_1ms,
         ConnectResumes 0 env_1ms, ConnectResumes 1 env_1ms,
         ConnectResumes 0 env_1ms, ConnectResumes 1 env_1ms]
      = ((setupLightHandler ''Manual'')\<lparr>connecting := [4, 4]\<rparr>,
         [SetRGB 255 0 0, SetRGB 255 0 0, SetRGB 0 255 0, SetRGB 0 255 0,
          SetRGB 0 0 255, SetRGB 0 0 255, SetRGB 0 0 0, SetRGB 0 0 0])"
    by (simp add: onConnect_eq onConnect_resume_def disconnect_eq setupLightHandler_def)
  have s2: "run ((setupLightHandler ''Manual'')\<lparr>connecting := [4, 4]\<rparr>)
        [ConnectResumes 0 env_1ms, ConnectResumes 0 env_1ms]
      = ((setupLightHandler ''Manual'')
           \<lparr>lastRGB := \<lparr>rgb_r = 0, rgb_g = 0, rgb_b = 0\<rparr>, timeout := Some 49,
            lost_timeouts := [49]\<rparr>,
         [SetRGB 0 0 0, SetRGB 0 0 0,
          Broadcast ''rgb-update'' (Color \<lparr>rgb_r = 0, rgb_g = 0, rgb_b = 0\<rparr>),
          SetRGB 0 0 0])"
    by (simp add: onConnect_resume_def tick_called_def tick_def isStateChanged_def
        changeState_def env_1ms_def SERVER_FPS_def SECOND_def setupLightHandler_def Let_def)
  have s3: "run ((setupLightHandler ''Manual'')
           \<lparr>lastRGB := \<lparr>rgb_r = 0, rgb_g = 0, rgb_b = 0\<rparr>, timeout := Some 49,
            lost_timeouts := [49]\<rparr>)
        [Disconnect, RgbSet ''client'' 1 2 3, LostTickFires 0 env_1ms]
      = ((setupLightHandler ''Manual'')
          \<lparr>RGB := \<lparr>rgb_r = 1, rgb_g = 2, rgb_b = 3\<rparr>,
           lastRGB := \<lparr>rgb_r = 1, rgb_g = 2, rgb_b = 3\<rparr>, timeout := Some 49\<rparr>,
         [Broadcast ''mode-update'' (Mode ''Manual''),
          SetRGB 1 2 3, Broadcast ''rgb-update'' (Color \<lparr>rgb_r = 1, rgb_g = 2, rgb_b = 3\<rparr>)])"
    by (simp add: disconnect_eq rgb_set_def setMode_unawaited_def setMode_eq clamp_def
        tick_called_def tick_def isStateChanged_def changeState_def
        env_1ms_def SERVER_FPS_def SECOND_def setupLightHandler_def Let_def)
  show ?thesis
    by (intro conjI) (rule a, rule run_then [OF s1 run_then [OF s2 s3]])
qed



section \<open>The fade after the door has closed\<close>

text \<open>
  C1 on a concrete run. The handler is connected in mode Manual, a client sets the colour
  (254, 0, 254) and a tick sends it. The door opens, closes, the debounce fires, and the
  fade interval runs once: \<open>r\<close> and \<open>b\<close> have reached 254, the stop test looks at \<open>r\<close>
  and twice at \<open>b\<close> and never at \<open>g\<close>, so the fade ends there. The state is the state
  from before the door opened, mode Manual and no interval left, and the last colour sent
  to the device is (254, 254, 254), not (254, 0, 254).
\<close>

theorem fade_ends_with_green_off_target:
  "RGB (after ''Manual''
          (connect_and_intro env_1ms @ [RgbSet ''client'' 254 0 254, TickFires env_1ms]))
     = \<lparr>rgb_r = 254, rgb_g = 0, rgb_b = 254\<rparr>
   \<and> lightMode (after ''Manual''
          (connect_and_intro env_1ms @ [RgbSet ''client'' 254 0 254, TickFires env_1ms]))
     = ''Manual''
   \<and> doorFrameLoop (after ''Manual''
          (connect_and_intro env_1ms @ [RgbSet ''client'' 254 0 254, TickFires env_1ms]))
     = None
   \<and> run (after ''Manual''
          (connect_and_intro env_1ms @ [RgbSet ''client'' 254 0 254, TickFires env_1ms]))
         [Door True, Door False, DebounceFires, DoorFrameFires]
     = (after ''Manual''
          (connect_and_intro env_1ms @ [RgbSet ''client'' 254 0 254, TickFires env_1ms]),
        [SetRGB 255 255 255,
         Broadcast ''mode-update'' (Mode ''Door''),
         Broadcast ''rgb-update'' (Color \<lparr>rgb_r = 255, rgb_g = 255, rgb_b = 255\<rparr>),
         Broadcast ''mode-update'' (Mode ''Door''),
         Broadcast ''rgb-update'' (Color \<lparr>rgb_r = 255, rgb_g = 255, rgb_b = 255\<rparr>),
         SetRGB 254 254 254,
         Broadcast ''mode-update'' (Mode ''Manual''),
         Broadcast ''rgb-update'' (Color \<lparr>rgb_r = 254, rgb_g = 0, rgb_b = 254\<rparr>)])"
proof -
  have c: "after ''Manual'' (connect_and_intro env_1ms)
      = (setupLightHandler ''Manual'')
          \<lparr>lastRGB := \<lparr>rgb_r = 0, rgb_g = 0, rgb_b = 0\<rparr>, timeout := Some 49\<rparr>"
    by (simp add: after_def connect_and_intro_def onConnect_eq onConnect_resume_def
        tick_called_def tick_def isStateChanged_def changeState_def
        env_1ms_def SERVER_FPS_def SECOND_def setupLightHandler_def Let_def)
  have s: "after ''Manual''
          (connect_and_intro env_1ms @ [RgbSet ''client'' 254 0 254, TickFires env_1ms])
      = (setupLightHandler ''Manual'')
          \<lparr>RGB := \<lparr>rgb_r = 254, rgb_g = 0, rgb_b = 254\<rparr>,
           lastRGB := \<lparr>rgb_r = 254, rgb_g = 0, rgb_b = 254\<rparr>, timeout := Some 49\<rparr>"
    unfolding after_append c
    by (simp add: tick_def isStateChanged_def changeState_def
        rgb_set_def setMode_unawaited_def setMode_eq clamp_def
        env_1ms_def SERVER_FPS_def SECOND_def setupLightHandler_def Let_def)
  show ?thesis
    by (simp add: s door_eq de_body_eq doorFrame_def updateModeAndLight_def
        setupLightHandler_def Let_def)
qed

end
